theory Spec2Isabelle
  imports Complex_Main "HOL-Library.AList"
begin

section \<open>Receipt processing: data model\<close>

text \<open>
  The module \<^verbatim>\<open>src/lambda/receipt_processor.py\<close> reads the response of the
  AnalyzeExpense call. boto3 parses that response against the service model: a member
  that the service did not send is left out of the dictionary, and a member that is there
  has its declared type. Each dictionary of the response is therefore a record whose
  fields are optional (\<open>None\<close> is "the key is not in the dictionary"); only the members
  the code reads are kept.

  \<open>Text\<close> is the text of a type, label or value detection.
\<close>

record detection =
  Text :: "string option"

record expense_field =
  Type :: "detection option"
  LabelDetection :: "detection option"
  ValueDetection :: "detection option"

record line_item_fields =
  LineItemExpenseFields :: "expense_field list option"

record line_item_group =
  LineItems :: "line_item_fields list option"

record expense_document =
  SummaryFields :: "expense_field list option"
  LineItemGroups :: "line_item_group list option"

record textract_response =
  ExpenseDocuments :: "expense_document list option"

text \<open>
  A Python value that is a \<^verbatim>\<open>str\<close> or \<^verbatim>\<open>None\<close> is a \<open>string option\<close>, with
  \<open>None\<close> for Python's \<^verbatim>\<open>None\<close>. A dictionary built by the code is an association
  list with distinct keys, in insertion order: \<^verbatim>\<open>d[k] = v\<close> is \<open>AList.update k v d\<close>
  (an existing key keeps its place and takes the new value), \<^verbatim>\<open>d.get(k, default)\<close>
  is \<open>dict_get\<close>.
\<close>

type_synonym pyval = "string option"

type_synonym pydict = "(string \<times> pyval) list"

definition dict_get :: "pydict \<Rightarrow> string \<Rightarrow> pyval \<Rightarrow> pyval" where
  "dict_get d k dflt = (case map_of d k of None \<Rightarrow> dflt | Some v \<Rightarrow> v)"

text \<open>Python's truth value of a \<^verbatim>\<open>str\<close> or \<^verbatim>\<open>None\<close>: false on \<^verbatim>\<open>None\<close> and on the empty string.\<close>

fun truthy :: "pyval \<Rightarrow> bool" where
  "truthy None = False"
| "truthy (Some s) = (s \<noteq> [])"

text \<open>\<^verbatim>\<open>a or b\<close> on such values.\<close>

definition py_or :: "pyval \<Rightarrow> pyval \<Rightarrow> pyval" where
  "py_or a b = (if truthy a then a else b)"

text \<open>\<^verbatim>\<open>field.get(name, {}).get("Text")\<close> for a member \<open>m\<close> of a field.\<close>

definition get_text :: "detection option \<Rightarrow> pyval" where
  "get_text m = (case m of None \<Rightarrow> None | Some d \<Rightarrow> Text d)"

definition coalesce :: "pyval \<Rightarrow> string \<Rightarrow> string" where
  "coalesce v dflt = (case v of Some s \<Rightarrow> s | None \<Rightarrow> dflt)"

section \<open>Field normalizer\<close>

subsection \<open>Summary fields\<close>

text \<open>
  The variable \<^verbatim>\<open>ftype\<close> of \<^verbatim>\<open>_parse_summary_fields\<close> after the \<^verbatim>\<open>if\<close>/\<^verbatim>\<open>elif\<close>:
  the text of \<^verbatim>\<open>Type\<close> when that member is there with a non-empty text, else the text
  of \<^verbatim>\<open>LabelDetection\<close> under the same condition, else \<^verbatim>\<open>None\<close>.
\<close>

definition summary_ftype :: "expense_field \<Rightarrow> pyval" where
  "summary_ftype field =
     (if Type field \<noteq> None \<and> truthy (Text (the (Type field)))
        then Text (the (Type field))
      else if LabelDetection field \<noteq> None \<and> truthy (Text (the (LabelDetection field)))
        then Text (the (LabelDetection field))
      else None)"

text \<open>
  One round of the loop of \<^verbatim>\<open>_parse_summary_fields\<close>. The loop runs over
  \<^verbatim>\<open>summary_fields or []\<close>, which on a list is the list itself.
\<close>

definition summary_step :: "pydict \<Rightarrow> expense_field \<Rightarrow> pydict" where
  "summary_step out field =
     (let ftype = summary_ftype field;
          val = get_text (ValueDetection field)
      in if truthy ftype then AList.update (the ftype) val out else out)"

fun summary_loop :: "pydict \<Rightarrow> expense_field list \<Rightarrow> pydict" where
  "summary_loop out [] = out"
| "summary_loop out (field # rest) = summary_loop (summary_step out field) rest"

definition parse_summary_fields :: "expense_field list \<Rightarrow> pydict" where
  "parse_summary_fields summary_fields = summary_loop [] summary_fields"

subsection \<open>Line items\<close>

text \<open>
  A normalized line item: the dictionary with the keys \<^verbatim>\<open>description\<close>,
  \<^verbatim>\<open>quantity\<close>, \<^verbatim>\<open>unit_price\<close>, \<^verbatim>\<open>total\<close> and \<^verbatim>\<open>_raw\<close>.
\<close>

record line_item =
  description :: pyval
  quantity :: pyval
  unit_price :: pyval
  total_field :: pyval
  raw :: pydict

text \<open>One round of the loop over the fields of a line item.\<close>

definition item_step :: "pydict \<Rightarrow> expense_field \<Rightarrow> pydict" where
  "item_step item field =
     (let t = py_or (get_text (Type field)) (get_text (LabelDetection field));
          v = get_text (ValueDetection field)
      in if truthy t then AList.update (the t) v item else item)"

fun item_loop :: "pydict \<Rightarrow> expense_field list \<Rightarrow> pydict" where
  "item_loop item [] = item"
| "item_loop item (field # rest) = item_loop (item_step item field) rest"

text \<open>The body of the loop over the line items of a group.\<close>

definition normalize_item :: "line_item_fields \<Rightarrow> line_item" where
  "normalize_item li =
     (let item = item_loop [] (case LineItemExpenseFields li of None \<Rightarrow> [] | Some fs \<Rightarrow> fs)
      in \<lparr> description = dict_get item ''ITEM'' (dict_get item ''DESCRIPTION'' (Some '''')),
           quantity = dict_get item ''QUANTITY'' (Some ''''),
           unit_price = dict_get item ''PRICE'' (dict_get item ''UNIT_PRICE'' (Some '''')),
           total_field = dict_get item ''TOTAL'' (dict_get item ''LINE_TOTAL'' (Some '''')),
           raw = item \<rparr>)"

fun group_loop :: "line_item list \<Rightarrow> line_item_fields list \<Rightarrow> line_item list" where
  "group_loop items [] = items"
| "group_loop items (li # rest) = group_loop (items @ [normalize_item li]) rest"

fun groups_loop :: "line_item list \<Rightarrow> line_item_group list \<Rightarrow> line_item list" where
  "groups_loop items [] = items"
| "groups_loop items (g # rest) =
     groups_loop (group_loop items (case LineItems g of None \<Rightarrow> [] | Some lis \<Rightarrow> lis)) rest"

definition parse_line_items :: "line_item_group list \<Rightarrow> line_item list" where
  "parse_line_items groups = groups_loop [] groups"

section \<open>Invocation payload, exceptions and the outside world\<close>

text \<open>
  The invocation payload (the argument \<^verbatim>\<open>event\<close>) is decoded JSON chosen by the
  invoker, so it is a JSON value of any shape: an object, but also a list, a string, a
  number, a truth value or null. A JSON object is an association list read with
  \<open>map_of\<close>.
\<close>

datatype json =
    JNull
  | JBool bool
  | JNum real
  | JStr string
  | JList "json list"
  | JObj "(string \<times> json) list"

text \<open>
  The exceptions that can leave \<^verbatim>\<open>handler\<close>: the ones Python raises on the payload,
  the \<^verbatim>\<open>ValueError\<close> of the manual branch, and the ones an external call raises:
  botocore's \<^verbatim>\<open>ClientError\<close> (with its subclasses) or anything else
  (\<open>OtherException\<close>: a connection failure, a parameter validation error, ...).
\<close>

datatype exn =
    ValueError string
  | KeyError string
  | TypeError
  | AttributeError
  | IndexError
  | ClientError string
  | OtherException string

text \<open>Python's truth value of a JSON value.\<close>

fun truthy_json :: "json \<Rightarrow> bool" where
  "truthy_json JNull = False"
| "truthy_json (JBool b) = b"
| "truthy_json (JNum x) = (x \<noteq> 0)"
| "truthy_json (JStr s) = (s \<noteq> [])"
| "truthy_json (JList xs) = (xs \<noteq> [])"
| "truthy_json (JObj kvs) = (kvs \<noteq> [])"

text \<open>
  \<^verbatim>\<open>v[0]\<close>: the first element of a list or the first character of a string (the
  handler calls \<^verbatim>\<open>.get\<close> on it next, which a string does not have); an object has
  string keys only, so the key \<^verbatim>\<open>0\<close> is missing; nothing else can be subscripted.
\<close>

fun index0 :: "json \<Rightarrow> exn + json" where
  "index0 (JList []) = Inl IndexError"
| "index0 (JList (x # xs)) = Inr x"
| "index0 (JStr []) = Inl IndexError"
| "index0 (JStr (c # cs)) = Inr (JStr [c])"
| "index0 (JObj kvs) = Inl (KeyError ''0'')"
| "index0 v = Inl TypeError"

text \<open>\<^verbatim>\<open>d.get(k)\<close> on a dictionary \<open>d\<close> given by its items.\<close>

definition obj_get :: "(string \<times> json) list \<Rightarrow> string \<Rightarrow> json" where
  "obj_get kvs k = (case map_of kvs k of None \<Rightarrow> JNull | Some v \<Rightarrow> v)"

text \<open>\<^verbatim>\<open>v.get(k)\<close>: only a dictionary has the method.\<close>

fun py_get :: "json \<Rightarrow> string \<Rightarrow> exn + json" where
  "py_get (JObj kvs) k = Inr (obj_get kvs k)"
| "py_get v k = Inl AttributeError"

text \<open>\<^verbatim>\<open>pat in s\<close> on two strings: \<open>pat\<close> occurs in \<open>s\<close>.\<close>

fun str_contains :: "string \<Rightarrow> string \<Rightarrow> bool" where
  "str_contains pat [] = (pat = [])"
| "str_contains pat (c # cs) = (take (length pat) (c # cs) = pat \<or> str_contains pat cs)"

text \<open>
  \<^verbatim>\<open>k in v\<close> for a string \<open>k\<close>: a key of a dictionary, an element of a list (only
  a string equals a string), a part of a string; the other values are not iterable.
\<close>

fun py_in :: "string \<Rightarrow> json \<Rightarrow> exn + bool" where
  "py_in k (JObj kvs) = Inr (map_of kvs k \<noteq> None)"
| "py_in k (JList xs) = Inr (JStr k \<in> set xs)"
| "py_in k (JStr s) = Inr (str_contains k s)"
| "py_in k v = Inl TypeError"

text \<open>\<^verbatim>\<open>v[k]\<close> for a string \<open>k\<close>.\<close>

fun subscript :: "json \<Rightarrow> string \<Rightarrow> exn + json" where
  "subscript (JObj kvs) k = (case map_of kvs k of None \<Rightarrow> Inl (KeyError k) | Some v \<Rightarrow> Inr v)"
| "subscript v k = Inl TypeError"

definition bindE :: "exn + 'a \<Rightarrow> ('a \<Rightarrow> exn + 'b) \<Rightarrow> exn + 'b" where
  "bindE m f = (case m of Inl e \<Rightarrow> Inl e | Inr x \<Rightarrow> f x)"

text \<open>
  The truth value of the condition of line 64,
  \<^verbatim>\<open>"Records" in event and event["Records"] and event["Records"][0].get("s3")\<close>,
  or the exception one of its operands raises; \<^verbatim>\<open>and\<close> stops at the first false
  operand.
\<close>

definition s3_condition :: "json \<Rightarrow> exn + bool" where
  "s3_condition event =
     bindE (py_in ''Records'' event) (\<lambda>present.
       if \<not> present then Inr False
       else bindE (subscript event ''Records'') (\<lambda>records.
            if \<not> truthy_json records then Inr False
            else bindE (index0 records) (\<lambda>rec.
                 bindE (py_get rec ''s3'') (\<lambda>s3. Inr (truthy_json s3)))))"

text \<open>Lines 64 to 72 of \<^verbatim>\<open>handler\<close>: the bucket and the key, or the exception raised.\<close>

definition adapt_trigger :: "json \<Rightarrow> exn + (json \<times> json)" where
  "adapt_trigger event =
     bindE (s3_condition event) (\<lambda>c.
       if c then
         bindE (bindE (subscript event ''Records'') index0) (\<lambda>rec.
         bindE (bindE (bindE (subscript rec ''s3'') (\<lambda>s. subscript s ''bucket''))
                  (\<lambda>b. subscript b ''name'')) (\<lambda>bucket.
         bindE (bindE (bindE (subscript rec ''s3'') (\<lambda>s. subscript s ''object''))
                  (\<lambda>ob. subscript ob ''key'')) (\<lambda>key.
         Inr (bucket, key))))
       else
         bindE (py_get event ''bucket'') (\<lambda>bucket.
         bindE (py_get event ''key'') (\<lambda>key.
           if \<not> truthy_json bucket \<or> \<not> truthy_json key
           then Inl (ValueError ''Provide {bucket, key} when invoking manually.'')
           else Inr (bucket, key))))"

subsection \<open>The persisted record, the e-mail and the output\<close>

record textract_meta =
  api :: string
  doc_count :: nat

record receipt_record =
  receipt_id :: string
  s3_bucket :: json
  s3_key :: json
  inserted_at :: string
  summary :: pydict
  line_items :: "line_item list"
  textract_meta :: textract_meta

record email =
  email_source :: string
  email_to_addresses :: "string list"
  email_subject :: string
  email_text :: string
  email_html :: string

record handler_output =
  status :: string
  out_receipt_id :: string
  out_summary :: pydict
  line_items_count :: nat

text \<open>
  What \<^verbatim>\<open>handler\<close> takes from outside: the outcome of each of the three service
  calls (an exception or, for the extraction call, the response), the generated
  identifier, the clock, the two configured addresses, and \<open>str_of\<close>, Python's
  formatting of the bucket and of the key inside an f-string (the identity on a
  \<^verbatim>\<open>str\<close>). The calls to the logger are left out.
\<close>

record world =
  analyze_expense :: "json \<Rightarrow> json \<Rightarrow> exn + textract_response"
  put_item :: "receipt_record \<Rightarrow> exn option"
  send_email :: "email \<Rightarrow> exn option"
  uuid4 :: string
  utcnow_isoformat :: string
  str_of :: "json \<Rightarrow> string"
  SES_SENDER :: string
  SES_RECIPIENT :: string

text \<open>The external calls made, in order.\<close>

datatype effect =
    AnalyzeExpense json json
  | PutItem receipt_record
  | SendEmail email

section \<open>Report renderer\<close>

text \<open>A \<^verbatim>\<open>str\<close> or \<^verbatim>\<open>None\<close> inside an f-string.\<close>

fun fmt :: "pyval \<Rightarrow> string" where
  "fmt None = ''None''"
| "fmt (Some s) = s"

text \<open>\<^verbatim>\<open>sep.join(xs)\<close>.\<close>

fun str_join :: "string \<Rightarrow> string list \<Rightarrow> string" where
  "str_join sep [] = []"
| "str_join sep [x] = x"
| "str_join sep (x # y # ys) = x @ sep @ str_join sep (y # ys)"

text \<open>Lines 114 to 116: \<^verbatim>\<open>summary.get(k)\<close> is \<open>dict_get summary k None\<close>.\<close>

definition vendor_of :: "pydict \<Rightarrow> string" where
  "vendor_of summ =
     coalesce (py_or (py_or (dict_get summ ''VENDOR_NAME'' None)
                            (dict_get summ ''RECEIVER_NAME'' None))
                     (dict_get summ ''SUPPLIER_NAME'' None)) ''Unknown vendor''"

definition date_of :: "pydict \<Rightarrow> string" where
  "date_of summ =
     coalesce (py_or (py_or (dict_get summ ''INVOICE_RECEIPT_DATE'' None)
                            (dict_get summ ''INVOICE_DATE'' None))
                     (dict_get summ ''RECEIPT_DATE'' None)) ''Unknown date''"

definition total_of :: "pydict \<Rightarrow> string" where
  "total_of summ =
     coalesce (py_or (py_or (dict_get summ ''TOTAL'' None)
                            (dict_get summ ''AMOUNT_DUE'' None))
                     (dict_get summ ''INVOICE_TOTAL'' None)) ''Unknown total''"

text \<open>
  One line of the preview and one row of the table. A normalized item always has its
  four keys, so the defaults of \<^verbatim>\<open>i.get('description','?')\<close> and the like are never
  taken.
\<close>

definition preview_line :: "line_item \<Rightarrow> string" where
  "preview_line i =
     ''- '' @ fmt (description i) @ ''  qty='' @ fmt (quantity i)
       @ ''  price='' @ fmt (unit_price i) @ ''  total='' @ fmt (total_field i)"

definition html_row :: "line_item \<Rightarrow> string" where
  "html_row i =
     ''<tr><td>'' @ fmt (description i) @ ''</td><td>'' @ fmt (quantity i)
       @ ''</td><td>'' @ fmt (unit_price i) @ ''</td><td>'' @ fmt (total_field i)
       @ ''</td></tr>''"

definition no_items_text :: string where
  "no_items_text = ''(no line items detected)''"

definition no_items_html :: string where
  "no_items_html = ''<tr><td colspan='4'>(no line items detected)</td></tr>''"

text \<open>Lines 118 to 121 and 139 to 142: \<^verbatim>\<open>x or y\<close> takes \<open>y\<close> when the string \<open>x\<close> is empty.\<close>

definition lines_preview :: "line_item list \<Rightarrow> string" where
  "lines_preview items =
     (let s = str_join ''\<newline>'' (map preview_line (take 10 items))
      in if s = [] then no_items_text else s)"

definition html_items :: "line_item list \<Rightarrow> string" where
  "html_items items =
     (let s = concat (map html_row (take 50 items))
      in if s = [] then no_items_html else s)"

definition dq :: string where
  "dq = [CHR 0x22]"

definition text_body ::
  "string \<Rightarrow> string \<Rightarrow> string \<Rightarrow> string \<Rightarrow> string \<Rightarrow> string \<Rightarrow> string \<Rightarrow> string \<Rightarrow> string" where
  "text_body vendor date total_s preview rid bucket key now_iso =
     ''\<newline>Your receipt has been processed.\<newline>\<newline>Vendor: '' @ vendor
     @ ''\<newline>Date:   '' @ date
     @ ''\<newline>Total:  '' @ total_s
     @ ''\<newline>\<newline>Top line items:\<newline>'' @ preview
     @ ''\<newline>\<newline>Metadata:\<newline>- Receipt ID: '' @ rid
     @ ''\<newline>- S3: s3://'' @ bucket @ ''/'' @ key
     @ ''\<newline>- Inserted at: '' @ now_iso @ ''\<newline>''"

definition html_body ::
  "string \<Rightarrow> string \<Rightarrow> string \<Rightarrow> string \<Rightarrow> string \<Rightarrow> string \<Rightarrow> string \<Rightarrow> string \<Rightarrow> string" where
  "html_body vendor date total_s rows rid bucket key now_iso =
     ''<html><body>\<newline><h2>Receipt processed</h2>\<newline><p><strong>Vendor</strong>: '' @ vendor
     @ ''<br/>\<newline><strong>Date</strong>: '' @ date
     @ ''<br/>\<newline><strong>Total</strong>: '' @ total_s
     @ ''</p>\<newline><table border='' @ dq @ ''1'' @ dq @ '' cellspacing='' @ dq @ ''0'' @ dq
     @ '' cellpadding='' @ dq @ ''6'' @ dq
     @ ''>\<newline><thead><tr><th>Description</th><th>Qty</th><th>Unit Price</th><th>Line Total</th></tr></thead>\<newline><tbody>''
     @ rows
     @ ''</tbody>\<newline></table>\<newline><p>Receipt ID: '' @ rid
     @ ''<br/>\<newline>S3: s3://'' @ bucket @ ''/'' @ key
     @ ''<br/>\<newline>Inserted at: '' @ now_iso @ ''</p>\<newline></body></html>''"

definition subject_line :: "string \<Rightarrow> string \<Rightarrow> string \<Rightarrow> string" where
  "subject_line vendor date total_s =
     ''Receipt processed: '' @ vendor @ '' on '' @ date @ '' (Total '' @ total_s @ '')''"

section \<open>Orchestrator\<close>

text \<open>Lines 83 to 91: the summary and the items of the first document, if there is one.\<close>

definition normalize :: "expense_document list \<Rightarrow> pydict \<times> line_item list" where
  "normalize expense_docs =
     (case expense_docs of
        [] \<Rightarrow> ([], [])
      | doc # others \<Rightarrow>
          (parse_summary_fields (case SummaryFields doc of None \<Rightarrow> [] | Some fs \<Rightarrow> fs),
           parse_line_items (case LineItemGroups doc of None \<Rightarrow> [] | Some gs \<Rightarrow> gs)))"

text \<open>Lines 93 to 108.\<close>

definition build_record ::
  "world \<Rightarrow> json \<Rightarrow> json \<Rightarrow> expense_document list \<Rightarrow> pydict \<Rightarrow> line_item list \<Rightarrow> receipt_record" where
  "build_record w bucket key expense_docs summ items =
     \<lparr> receipt_id = uuid4 w,
       s3_bucket = bucket,
       s3_key = key,
       inserted_at = utcnow_isoformat w @ ''Z'',
       summary = summ,
       line_items = items,
       textract_meta = \<lparr> api = ''AnalyzeExpense'', doc_count = length expense_docs \<rparr> \<rparr>"

text \<open>Lines 114 to 170: the message given to the notification call.\<close>

definition build_email :: "world \<Rightarrow> receipt_record \<Rightarrow> email" where
  "build_email w r =
     (let vendor = vendor_of (summary r);
          date = date_of (summary r);
          total_s = total_of (summary r);
          bucket = str_of w (s3_bucket r);
          key = str_of w (s3_key r)
      in \<lparr> email_source = SES_SENDER w,
           email_to_addresses = [SES_RECIPIENT w],
           email_subject = subject_line vendor date total_s,
           email_text = text_body vendor date total_s (lines_preview (line_items r))
                          (receipt_id r) bucket key (inserted_at r),
           email_html = html_body vendor date total_s (html_items (line_items r))
                          (receipt_id r) bucket key (inserted_at r) \<rparr>)"

text \<open>Line 175.\<close>

definition ok_output :: "receipt_record \<Rightarrow> handler_output" where
  "ok_output r =
     \<lparr> status = ''ok'', out_receipt_id = receipt_id r, out_summary = summary r,
       line_items_count = length (line_items r) \<rparr>"

text \<open>Lines 83 to 108: the record built from the response of the extraction call.\<close>

definition receipt_of :: "world \<Rightarrow> json \<Rightarrow> json \<Rightarrow> textract_response \<Rightarrow> receipt_record" where
  "receipt_of w bucket key tx =
     (let expense_docs = (case ExpenseDocuments tx of None \<Rightarrow> [] | Some ds \<Rightarrow> ds);
          (summ, items) = normalize expense_docs
      in build_record w bucket key expense_docs summ items)"

text \<open>
  \<^verbatim>\<open>handler\<close>: the external calls made, in order, and either the exception that leaves
  the function or the value it returns.
\<close>

definition handler :: "world \<Rightarrow> json \<Rightarrow> effect list \<times> (exn + handler_output)" where
  "handler w event =
     (case adapt_trigger event of
        Inl e \<Rightarrow> ([], Inl e)
      | Inr (bucket, key) \<Rightarrow>
          (case analyze_expense w bucket key of
             Inl e \<Rightarrow> ([AnalyzeExpense bucket key], Inl e)
           | Inr tx \<Rightarrow>
               (let r = receipt_of w bucket key tx
                in case put_item w r of
                     Some e \<Rightarrow> ([AnalyzeExpense bucket key, PutItem r], Inl e)
                   | None \<Rightarrow>
                       (let m = build_email w r;
                            effects = [AnalyzeExpense bucket key, PutItem r, SendEmail m]
                        in case send_email w m of
                             None \<Rightarrow> (effects, Inr (ok_output r))
                           | Some (ClientError msg) \<Rightarrow> (effects, Inr (ok_output r))
                           | Some e \<Rightarrow> (effects, Inl e)))))"

section \<open>Example inputs\<close>

text \<open>A field with a declared type and a detected value, and one with no value detection.\<close>

definition typed_field :: "string \<Rightarrow> string \<Rightarrow> expense_field" where
  "typed_field t v =
     \<lparr> Type = Some \<lparr> Text = Some t \<rparr>, LabelDetection = None,
       ValueDetection = Some \<lparr> Text = Some v \<rparr> \<rparr>"

definition field_without_value :: "string \<Rightarrow> expense_field" where
  "field_without_value t =
     \<lparr> Type = Some \<lparr> Text = Some t \<rparr>, LabelDetection = None, ValueDetection = None \<rparr>"

definition one_item_group :: "expense_field list \<Rightarrow> line_item_group" where
  "one_item_group fs = \<lparr> LineItems = Some [\<lparr> LineItemExpenseFields = Some fs \<rparr>] \<rparr>"

text \<open>The line item described by one letter, and the items described by a row of letters.\<close>

definition lettered_item :: "char \<Rightarrow> line_item" where
  "lettered_item c =
     \<lparr> description = Some [c], quantity = Some ''1'', unit_price = Some ''2'',
       total_field = Some ''3'', raw = [] \<rparr>"

definition lettered_items :: "string \<Rightarrow> line_item list" where
  "lettered_items cs = map lettered_item cs"

definition item_without_quantity :: line_item where
  "item_without_quantity =
     \<lparr> description = Some ''Tea'', quantity = None, unit_price = Some ''1.50'',
       total_field = Some ''3.00'', raw = [(''QUANTITY'', None)] \<rparr>"

text \<open>
  A world in which the extraction call returns \<open>tx\<close>, the write raises \<open>p\<close> (or
  succeeds on \<open>None\<close>) and the send raises \<open>s\<close> (or succeeds on \<open>None\<close>).
\<close>

definition example_str_of :: "json \<Rightarrow> string" where
  "example_str_of j = (case j of JStr s \<Rightarrow> s | _ \<Rightarrow> ''?'')"

definition example_world :: "textract_response \<Rightarrow> exn option \<Rightarrow> exn option \<Rightarrow> world" where
  "example_world tx p s =
     \<lparr> analyze_expense = (\<lambda>bucket key. Inr tx),
       put_item = (\<lambda>r. p),
       send_email = (\<lambda>m. s),
       uuid4 = ''1b4e28ba-2fa1-11d2-883f-0016d3cca427'',
       utcnow_isoformat = ''2024-05-01T12:00:00'',
       str_of = example_str_of,
       SES_SENDER = ''sender@example.com'',
       SES_RECIPIENT = ''recipient@example.com'' \<rparr>"

definition no_documents :: textract_response where
  "no_documents = \<lparr> ExpenseDocuments = Some [] \<rparr>"

definition world_ses_unreachable :: world where
  "world_ses_unreachable =
     example_world no_documents None (Some (OtherException ''EndpointConnectionError''))"

definition manual_event :: json where
  "manual_event = JObj [(''bucket'', JStr ''b''), (''key'', JStr ''k'')]"

definition s3_event_empty_bucket :: json where
  "s3_event_empty_bucket =
     JObj [(''Records'',
            JList [JObj [(''s3'', JObj [(''bucket'', JObj [(''name'', JStr '''')]),
                                        (''object'', JObj [(''key'', JStr ''k'')])])]])]"

section \<open>Properties of the normalizer\<close>

subsection \<open>Summary fields\<close>

lemma summary_ftype_nonempty: "summary_ftype f = Some l \<Longrightarrow> l \<noteq> []"
  by (auto simp: summary_ftype_def split: if_splits)

lemma summary_loop_append: "summary_loop out (fs @ gs) = summary_loop (summary_loop out fs) gs"
  by (induction fs arbitrary: out) simp_all

lemma map_of_summary_step:
  "map_of (summary_step out f) l =
     (if summary_ftype f = Some l then Some (get_text (ValueDetection f)) else map_of out l)"
proof (cases "summary_ftype f")
  case None
  then show ?thesis by (simp add: summary_step_def)
next
  case (Some k)
  then have "k \<noteq> []" by (rule summary_ftype_nonempty)
  with Some show ?thesis by (simp add: summary_step_def update_conv')
qed

lemma distinct_summary_step: "distinct (map fst out) \<Longrightarrow> distinct (map fst (summary_step out f))"
  by (simp add: summary_step_def Let_def distinct_update)

lemma distinct_summary_loop: "distinct (map fst out) \<Longrightarrow> distinct (map fst (summary_loop out fs))"
  by (induction fs arbitrary: out) (simp_all add: distinct_summary_step)

lemma map_of_summary_loop_other:
  "\<forall>g \<in> set gs. summary_ftype g \<noteq> Some l \<Longrightarrow> map_of (summary_loop out gs) l = map_of out l"
  by (induction gs arbitrary: out) (simp_all add: map_of_summary_step)

text \<open>
  Claim C5. When several entries of the summary-field list resolve to the label \<open>l\<close>,
  the summary maps \<open>l\<close> to the detected value of the last of them in list order: for an
  entry \<open>f\<close> with label \<open>l\<close> after which no entry has that label, whatever comes before
  it, the summary holds the value of \<open>f\<close> under \<open>l\<close>. No key is in the summary twice.
\<close>

theorem summary_last_wins:
  assumes "fs = pre @ f # post"
    and "summary_ftype f = Some l"
    and "\<forall>g \<in> set post. summary_ftype g \<noteq> Some l"
  shows "map_of (parse_summary_fields fs) l = Some (get_text (ValueDetection f)) \<and>
         distinct (map fst (parse_summary_fields fs))"
proof
  have "parse_summary_fields fs = summary_loop (summary_step (summary_loop [] pre) f) post"
    using assms(1) by (simp add: parse_summary_fields_def summary_loop_append)
  with assms(2,3) show "map_of (parse_summary_fields fs) l = Some (get_text (ValueDetection f))"
    by (simp add: map_of_summary_loop_other map_of_summary_step)
next
  show "distinct (map fst (parse_summary_fields fs))"
    by (simp add: parse_summary_fields_def distinct_summary_loop)
qed

theorem summary_last_wins_witness:
  "summary_ftype (typed_field ''TOTAL'' ''1'') = Some ''TOTAL'' \<and>
   summary_ftype (typed_field ''TOTAL'' ''2'') = Some ''TOTAL'' \<and>
   map_of (parse_summary_fields
     [typed_field ''TOTAL'' ''1'', typed_field ''VENDOR_NAME'' ''ACME'', typed_field ''TOTAL'' ''2''])
     ''TOTAL'' = Some (Some ''2'') \<and>
   distinct (map fst (parse_summary_fields
     [typed_field ''TOTAL'' ''1'', typed_field ''VENDOR_NAME'' ''ACME'', typed_field ''TOTAL'' ''2'']))"
  using summary_last_wins
    [of "[typed_field ''TOTAL'' ''1'', typed_field ''VENDOR_NAME'' ''ACME'', typed_field ''TOTAL'' ''2'']"
        "[typed_field ''TOTAL'' ''1'', typed_field ''VENDOR_NAME'' ''ACME'']"
        "typed_field ''TOTAL'' ''2''" "[]" "''TOTAL''"]
  by (simp add: typed_field_def summary_ftype_def get_text_def)

subsection \<open>Line items\<close>

text \<open>
  Claim C6. The claim derives each attribute from the raw mapping by synonym fallback:
  the first label's value, else the synonym's value, else the empty string. The code
  falls back only when the first label is missing from the raw mapping. When the label
  is there without a value text, its entry in the raw mapping is \<^verbatim>\<open>None\<close> and
  \<^verbatim>\<open>item.get\<close> returns that \<^verbatim>\<open>None\<close>: with "ITEM" without value and "DESCRIPTION"
  "Bread" the description is \<^verbatim>\<open>None\<close>, neither "Bread" nor the empty string; the same
  for "PRICE" with "UNIT_PRICE" and for "TOTAL" with "LINE_TOTAL". Where every label
  has a value text the fallback is as the claim says, as the second line item shows:
  "PRICE" alone gives the unit price, and the attributes without a label are empty.
\<close>

theorem line_item_synonym_skipped_on_none:
  "parse_line_items
     [one_item_group [field_without_value ''ITEM'', typed_field ''DESCRIPTION'' ''Bread'',
                      field_without_value ''PRICE'', typed_field ''UNIT_PRICE'' ''2.00'',
                      field_without_value ''TOTAL'', typed_field ''LINE_TOTAL'' ''4.00'']]
   = [\<lparr> description = None, quantity = Some '''', unit_price = None, total_field = None,
         raw = [(''ITEM'', None), (''DESCRIPTION'', Some ''Bread''),
                (''PRICE'', None), (''UNIT_PRICE'', Some ''2.00''),
                (''TOTAL'', None), (''LINE_TOTAL'', Some ''4.00'')] \<rparr>] \<and>
   parse_line_items
     [one_item_group [typed_field ''PRICE'' ''3.50'', typed_field ''DESCRIPTION'' ''Milk'']]
   = [\<lparr> description = Some ''Milk'', quantity = Some '''', unit_price = Some ''3.50'',
         total_field = Some '''',
         raw = [(''PRICE'', Some ''3.50''), (''DESCRIPTION'', Some ''Milk'')] \<rparr>]"
  by (simp add: parse_line_items_def one_item_group_def typed_field_def field_without_value_def
      normalize_item_def item_step_def get_text_def py_or_def dict_get_def)

text \<open>
  Claim C1. The claim asks for the empty string in a normalized field whenever its value
  is absent from the raw input, also when the label is there with no detected value
  text. The code takes the empty string only when the key is missing from the raw
  mapping: a line item whose only field is typed "QUANTITY" and carries no value
  detection gets the quantity \<^verbatim>\<open>None\<close>, which the preview then prints as "None".
\<close>

theorem line_item_absent_value_is_none:
  "map quantity (parse_line_items [one_item_group [field_without_value ''QUANTITY'']]) = [None] \<and>
   map raw (parse_line_items [one_item_group [field_without_value ''QUANTITY'']])
     = [[(''QUANTITY'', None)]] \<and>
   map preview_line (parse_line_items [one_item_group [field_without_value ''QUANTITY'']])
     = [''-   qty=None  price=  total='']"
  by (simp add: parse_line_items_def one_item_group_def field_without_value_def normalize_item_def
      item_step_def get_text_def py_or_def dict_get_def preview_line_def)

section \<open>Properties of the renderer\<close>

lemma coalesce_or3:
  "coalesce (py_or (py_or a b) c) fb =
     (if truthy a then the a else if truthy b then the b
      else (case c of Some v \<Rightarrow> v | None \<Rightarrow> fb))"
  by (cases a; cases b; cases c) (simp_all add: coalesce_def py_or_def)

lemma dict_get_absent: "map_of s k = None \<Longrightarrow> dict_get s k None = None"
  by (simp add: dict_get_def)

lemma resolution_generic:
  assumes "res = coalesce (py_or (py_or (dict_get s k1 None) (dict_get s k2 None))
                            (dict_get s k3 None)) fb"
  shows "(truthy (dict_get s k1 None) \<longrightarrow> dict_get s k1 None = Some res) \<and>
         (\<not> truthy (dict_get s k1 None) \<and> truthy (dict_get s k2 None)
            \<longrightarrow> dict_get s k2 None = Some res) \<and>
         (\<not> truthy (dict_get s k1 None) \<and> \<not> truthy (dict_get s k2 None) \<and>
          dict_get s k3 None \<noteq> None \<longrightarrow> dict_get s k3 None = Some res) \<and>
         (\<not> truthy (dict_get s k1 None) \<and> \<not> truthy (dict_get s k2 None) \<and>
          dict_get s k3 None = None \<longrightarrow> res = fb) \<and>
         (map_of s k1 = None \<and> map_of s k2 = None \<and> map_of s k3 = None \<longrightarrow> res = fb)"
  unfolding assms coalesce_or3
  by (cases "dict_get s k1 None"; cases "dict_get s k2 None"; cases "dict_get s k3 None")
     (auto simp: dict_get_absent)

text \<open>
  Claim C7. The vendor is resolved from the summary keys "VENDOR_NAME", else
  "RECEIVER_NAME", else "SUPPLIER_NAME"; the date from "INVOICE_RECEIPT_DATE", else
  "INVOICE_DATE", else "RECEIPT_DATE"; the total from "TOTAL", else "AMOUNT_DUE", else
  "INVOICE_TOTAL". For each of the three, with \<open>k1\<close>, \<open>k2\<close>, \<open>k3\<close> its keys in that
  order, \<open>fb\<close> its literal fallback and \<open>res\<close> the resolved string: a non-empty text
  under \<open>k1\<close> is the result; else a non-empty text under \<open>k2\<close> is; else the text under
  \<open>k3\<close> is; and when none of the three keys is in the summary (or \<open>k3\<close> has no text
  either) the result is the fallback "Unknown vendor", "Unknown date" or "Unknown total".
  Here \<open>dict_get s k None\<close> is \<^verbatim>\<open>summary.get(k)\<close>.
\<close>

theorem header_resolution:
  assumes "(k1, k2, k3, fb, res) \<in>
     {(''VENDOR_NAME'', ''RECEIVER_NAME'', ''SUPPLIER_NAME'', ''Unknown vendor'', vendor_of s),
      (''INVOICE_RECEIPT_DATE'', ''INVOICE_DATE'', ''RECEIPT_DATE'', ''Unknown date'', date_of s),
      (''TOTAL'', ''AMOUNT_DUE'', ''INVOICE_TOTAL'', ''Unknown total'', total_of s)}"
  shows "(truthy (dict_get s k1 None) \<longrightarrow> dict_get s k1 None = Some res) \<and>
         (\<not> truthy (dict_get s k1 None) \<and> truthy (dict_get s k2 None)
            \<longrightarrow> dict_get s k2 None = Some res) \<and>
         (\<not> truthy (dict_get s k1 None) \<and> \<not> truthy (dict_get s k2 None) \<and>
          dict_get s k3 None \<noteq> None \<longrightarrow> dict_get s k3 None = Some res) \<and>
         (\<not> truthy (dict_get s k1 None) \<and> \<not> truthy (dict_get s k2 None) \<and>
          dict_get s k3 None = None \<longrightarrow> res = fb) \<and>
         (map_of s k1 = None \<and> map_of s k2 = None \<and> map_of s k3 = None \<longrightarrow> res = fb)"
proof -
  have "res = coalesce (py_or (py_or (dict_get s k1 None) (dict_get s k2 None))
                            (dict_get s k3 None)) fb"
    using assms by (auto simp: vendor_of_def date_of_def total_of_def)
  then show ?thesis by (rule resolution_generic)
qed

theorem header_resolution_witness:
  "vendor_of [(''RECEIVER_NAME'', Some ''ACME''), (''TOTAL'', Some ''42.00'')] = ''ACME'' \<and>
   date_of [(''RECEIVER_NAME'', Some ''ACME''), (''TOTAL'', Some ''42.00'')] = ''Unknown date'' \<and>
   total_of [(''RECEIVER_NAME'', Some ''ACME''), (''TOTAL'', Some ''42.00'')] = ''42.00''"
  using header_resolution [of "''VENDOR_NAME''" "''RECEIVER_NAME''" "''SUPPLIER_NAME''"
      "''Unknown vendor''" "vendor_of [(''RECEIVER_NAME'', Some ''ACME''), (''TOTAL'', Some ''42.00'')]"
      "[(''RECEIVER_NAME'', Some ''ACME''), (''TOTAL'', Some ''42.00'')]"]
    header_resolution [of "''INVOICE_RECEIPT_DATE''" "''INVOICE_DATE''" "''RECEIPT_DATE''"
      "''Unknown date''" "date_of [(''RECEIVER_NAME'', Some ''ACME''), (''TOTAL'', Some ''42.00'')]"
      "[(''RECEIVER_NAME'', Some ''ACME''), (''TOTAL'', Some ''42.00'')]"]
    header_resolution [of "''TOTAL''" "''AMOUNT_DUE''" "''INVOICE_TOTAL''"
      "''Unknown total''" "total_of [(''RECEIVER_NAME'', Some ''ACME''), (''TOTAL'', Some ''42.00'')]"
      "[(''RECEIVER_NAME'', Some ''ACME''), (''TOTAL'', Some ''42.00'')]"]
  by (simp add: dict_get_def)

lemma preview_line_nonempty: "preview_line i \<noteq> []"
  by (simp add: preview_line_def)

lemma html_row_nonempty: "html_row i \<noteq> []"
  by (simp add: html_row_def)

lemma str_join_nonempty: "x \<noteq> [] \<Longrightarrow> str_join sep (x # xs) \<noteq> []"
  by (cases xs) simp_all

lemma lines_preview_eq:
  "lines_preview items =
     (if items = [] then ''(no line items detected)''
      else str_join ''\<newline>'' (map preview_line (take 10 items)))"
proof (cases items)
  case Nil
  then show ?thesis by (simp add: lines_preview_def no_items_text_def)
next
  case (Cons i rest)
  then have "take 10 items = i # take 9 rest"
    by (simp add: take_Cons')
  then show ?thesis
    using Cons by (simp add: lines_preview_def Let_def str_join_nonempty preview_line_nonempty)
qed

lemma html_items_eq:
  "html_items items =
     (if items = [] then ''<tr><td colspan='4'>(no line items detected)</td></tr>''
      else concat (map html_row (take 50 items)))"
proof (cases items)
  case Nil
  then show ?thesis by (simp add: html_items_def no_items_html_def)
next
  case (Cons i rest)
  then have "take 50 items = i # take 49 rest"
    by (simp add: take_Cons')
  then show ?thesis
    using Cons by (simp add: html_items_def Let_def html_row_nonempty)
qed

lemma contains_base: "\<exists>pre post. p @ rest = pre @ p @ (post::string)"
  by (rule exI [of _ "[]"]) simp

lemma contains_step:
  "\<exists>pre post. ys = pre @ p @ (post::string) \<Longrightarrow> \<exists>pre post. xs @ ys = pre @ p @ post"
proof -
  assume "\<exists>pre post. ys = pre @ p @ post"
  then obtain pre post where "ys = pre @ p @ post" by blast
  then have "xs @ ys = (xs @ pre) @ p @ post" by simp
  then show ?thesis by blast
qed

lemma text_body_contains:
  "\<exists>pre post. text_body vendor date total_s preview rid bucket key now_iso = pre @ preview @ post"
  unfolding text_body_def
  by (rule contains_step, rule contains_step, rule contains_step, rule contains_step,
      rule contains_step, rule contains_step, rule contains_step, rule contains_base)

lemma html_body_contains:
  "\<exists>pre post. html_body vendor date total_s rows rid bucket key now_iso = pre @ rows @ post"
  unfolding html_body_def
  by (rule contains_step, rule contains_step, rule contains_step, rule contains_step,
      rule contains_step, rule contains_step, rule contains_step, rule contains_step,
      rule contains_step, rule contains_step, rule contains_step, rule contains_step,
      rule contains_step, rule contains_step, rule contains_step, rule contains_step,
      rule contains_step, rule contains_step, rule contains_step, rule contains_base)

lemma take_min_length: "take (min n (length xs)) xs = take n xs"
  by (simp add: min_def)

text \<open>
  Claim C8. For every list of line items, the preview of the plain-text body is made of
  one line for each of the first \<open>min 10 (length items)\<close> items, in their order, joined
  by newlines, the line of an item showing its description, quantity, unit price and
  total; the rows of the HTML table are one row for each of the first
  \<open>min 50 (length items)\<close> items, in their order, the row of an item holding the same
  four attributes in its four cells. For the empty list the preview is the literal
  "(no line items detected)" and the table holds the single row with that literal. The
  plain-text body of the e-mail contains the preview and its HTML body contains the
  rows, so for a record with no line items both bodies contain the fallback.
\<close>

theorem item_listing_limits:
  "lines_preview items =
     (if items = [] then ''(no line items detected)''
      else str_join ''\<newline>''
             (map (\<lambda>i. ''- '' @ fmt (description i) @ ''  qty='' @ fmt (quantity i)
                         @ ''  price='' @ fmt (unit_price i) @ ''  total='' @ fmt (total_field i))
                  (take (min 10 (length items)) items))) \<and>
   html_items items =
     (if items = [] then ''<tr><td colspan='4'>(no line items detected)</td></tr>''
      else concat
             (map (\<lambda>i. ''<tr><td>'' @ fmt (description i) @ ''</td><td>'' @ fmt (quantity i)
                         @ ''</td><td>'' @ fmt (unit_price i) @ ''</td><td>''
                         @ fmt (total_field i) @ ''</td></tr>'')
                  (take (min 50 (length items)) items))) \<and>
   (\<exists>pre post. email_text (build_email w r) = pre @ lines_preview (line_items r) @ post) \<and>
   (\<exists>pre post. email_html (build_email w r) = pre @ html_items (line_items r) @ post) \<and>
   (line_items r = [] \<longrightarrow>
      (\<exists>pre post. email_text (build_email w r) = pre @ ''(no line items detected)'' @ post) \<and>
      (\<exists>pre post. email_html (build_email w r) =
          pre @ ''<tr><td colspan='4'>(no line items detected)</td></tr>'' @ post))"
proof -
  have pl: "(\<lambda>i. ''- '' @ fmt (description i) @ ''  qty='' @ fmt (quantity i)
                 @ ''  price='' @ fmt (unit_price i) @ ''  total='' @ fmt (total_field i))
            = preview_line"
    by (rule ext) (simp add: preview_line_def)
  have hr: "(\<lambda>i. ''<tr><td>'' @ fmt (description i) @ ''</td><td>'' @ fmt (quantity i)
                 @ ''</td><td>'' @ fmt (unit_price i) @ ''</td><td>''
                 @ fmt (total_field i) @ ''</td></tr>'')
            = html_row"
    by (rule ext) (simp add: html_row_def)
  have a: "\<exists>pre post. email_text (build_email w r) = pre @ lines_preview (line_items r) @ post"
    by (simp add: build_email_def Let_def text_body_contains)
  have b: "\<exists>pre post. email_html (build_email w r) = pre @ html_items (line_items r) @ post"
    by (simp add: build_email_def Let_def html_body_contains)
  have c: "lines_preview items =
     (if items = [] then ''(no line items detected)''
      else str_join ''\<newline>''
             (map (\<lambda>i. ''- '' @ fmt (description i) @ ''  qty='' @ fmt (quantity i)
                         @ ''  price='' @ fmt (unit_price i) @ ''  total='' @ fmt (total_field i))
                  (take (min 10 (length items)) items)))"
    unfolding pl take_min_length by (rule lines_preview_eq)
  have d: "html_items items =
     (if items = [] then ''<tr><td colspan='4'>(no line items detected)</td></tr>''
      else concat
             (map (\<lambda>i. ''<tr><td>'' @ fmt (description i) @ ''</td><td>'' @ fmt (quantity i)
                         @ ''</td><td>'' @ fmt (unit_price i) @ ''</td><td>''
                         @ fmt (total_field i) @ ''</td></tr>'')
                  (take (min 50 (length items)) items)))"
    unfolding hr take_min_length by (rule html_items_eq)
  have lp: "lines_preview [] = ''(no line items detected)''"
    by (simp add: lines_preview_def no_items_text_def)
  have hi: "html_items [] = ''<tr><td colspan='4'>(no line items detected)</td></tr>''"
    by (simp add: html_items_def no_items_html_def)
  have e: "\<exists>pre post. email_text (build_email w r) = pre @ ''(no line items detected)'' @ post"
    if h: "line_items r = []"
    using a unfolding h lp .
  have f: "\<exists>pre post. email_html (build_email w r) =
          pre @ ''<tr><td colspan='4'>(no line items detected)</td></tr>'' @ post"
    if h: "line_items r = []"
    using b unfolding h hi .
  from c d a b e f show ?thesis by (intro conjI impI)
qed

text \<open>
  Eleven different items give the lines of the first ten, in order; fifty-one give the
  rows of the first fifty; an attribute that is \<^verbatim>\<open>None\<close> is printed as "None".
\<close>

theorem item_listing_limits_witness:
  "lines_preview [] = ''(no line items detected)'' \<and>
   html_items [] = ''<tr><td colspan='4'>(no line items detected)</td></tr>'' \<and>
   lines_preview (lettered_items ''abcdefghijk'') =
       ''- a  qty=1  price=2  total=3\<newline>''
       @ ''- b  qty=1  price=2  total=3\<newline>''
       @ ''- c  qty=1  price=2  total=3\<newline>''
       @ ''- d  qty=1  price=2  total=3\<newline>''
       @ ''- e  qty=1  price=2  total=3\<newline>''
       @ ''- f  qty=1  price=2  total=3\<newline>''
       @ ''- g  qty=1  price=2  total=3\<newline>''
       @ ''- h  qty=1  price=2  total=3\<newline>''
       @ ''- i  qty=1  price=2  total=3\<newline>''
       @ ''- j  qty=1  price=2  total=3'' \<and>
   lines_preview [item_without_quantity] = ''- Tea  qty=None  price=1.50  total=3.00'' \<and>
   html_items [item_without_quantity] =
       ''<tr><td>Tea</td><td>None</td><td>1.50</td><td>3.00</td></tr>'' \<and>
   html_items (lettered_items ''abcdefghijklmnopqrstuvwxyzABCDEFGHIJKLMNOPQRSTUVWXY'') =
       ''<tr><td>a</td><td>1</td><td>2</td><td>3</td></tr><tr><td>b</td><td>1</td><td>2</td><td>3</td></tr>''
       @ ''<tr><td>c</td><td>1</td><td>2</td><td>3</td></tr><tr><td>d</td><td>1</td><td>2</td><td>3</td></tr>''
       @ ''<tr><td>e</td><td>1</td><td>2</td><td>3</td></tr><tr><td>f</td><td>1</td><td>2</td><td>3</td></tr>''
       @ ''<tr><td>g</td><td>1</td><td>2</td><td>3</td></tr><tr><td>h</td><td>1</td><td>2</td><td>3</td></tr>''
       @ ''<tr><td>i</td><td>1</td><td>2</td><td>3</td></tr><tr><td>j</td><td>1</td><td>2</td><td>3</td></tr>''
       @ ''<tr><td>k</td><td>1</td><td>2</td><td>3</td></tr><tr><td>l</td><td>1</td><td>2</td><td>3</td></tr>''
       @ ''<tr><td>m</td><td>1</td><td>2</td><td>3</td></tr><tr><td>n</td><td>1</td><td>2</td><td>3</td></tr>''
       @ ''<tr><td>o</td><td>1</td><td>2</td><td>3</td></tr><tr><td>p</td><td>1</td><td>2</td><td>3</td></tr>''
       @ ''<tr><td>q</td><td>1</td><td>2</td><td>3</td></tr><tr><td>r</td><td>1</td><td>2</td><td>3</td></tr>''
       @ ''<tr><td>s</td><td>1</td><td>2</td><td>3</td></tr><tr><td>t</td><td>1</td><td>2</td><td>3</td></tr>''
       @ ''<tr><td>u</td><td>1</td><td>2</td><td>3</td></tr><tr><td>v</td><td>1</td><td>2</td><td>3</td></tr>''
       @ ''<tr><td>w</td><td>1</td><td>2</td><td>3</td></tr><tr><td>x</td><td>1</td><td>2</td><td>3</td></tr>''
       @ ''<tr><td>y</td><td>1</td><td>2</td><td>3</td></tr><tr><td>z</td><td>1</td><td>2</td><td>3</td></tr>''
       @ ''<tr><td>A</td><td>1</td><td>2</td><td>3</td></tr><tr><td>B</td><td>1</td><td>2</td><td>3</td></tr>''
       @ ''<tr><td>C</td><td>1</td><td>2</td><td>3</td></tr><tr><td>D</td><td>1</td><td>2</td><td>3</td></tr>''
       @ ''<tr><td>E</td><td>1</td><td>2</td><td>3</td></tr><tr><td>F</td><td>1</td><td>2</td><td>3</td></tr>''
       @ ''<tr><td>G</td><td>1</td><td>2</td><td>3</td></tr><tr><td>H</td><td>1</td><td>2</td><td>3</td></tr>''
       @ ''<tr><td>I</td><td>1</td><td>2</td><td>3</td></tr><tr><td>J</td><td>1</td><td>2</td><td>3</td></tr>''
       @ ''<tr><td>K</td><td>1</td><td>2</td><td>3</td></tr><tr><td>L</td><td>1</td><td>2</td><td>3</td></tr>''
       @ ''<tr><td>M</td><td>1</td><td>2</td><td>3</td></tr><tr><td>N</td><td>1</td><td>2</td><td>3</td></tr>''
       @ ''<tr><td>O</td><td>1</td><td>2</td><td>3</td></tr><tr><td>P</td><td>1</td><td>2</td><td>3</td></tr>''
       @ ''<tr><td>Q</td><td>1</td><td>2</td><td>3</td></tr><tr><td>R</td><td>1</td><td>2</td><td>3</td></tr>''
       @ ''<tr><td>S</td><td>1</td><td>2</td><td>3</td></tr><tr><td>T</td><td>1</td><td>2</td><td>3</td></tr>''
       @ ''<tr><td>U</td><td>1</td><td>2</td><td>3</td></tr><tr><td>V</td><td>1</td><td>2</td><td>3</td></tr>''
       @ ''<tr><td>W</td><td>1</td><td>2</td><td>3</td></tr><tr><td>X</td><td>1</td><td>2</td><td>3</td></tr>''"
  using item_listing_limits [of "[]"]
    item_listing_limits [of "lettered_items ''abcdefghijk''"]
    item_listing_limits [of "[item_without_quantity]"]
    item_listing_limits
      [of "lettered_items ''abcdefghijklmnopqrstuvwxyzABCDEFGHIJKLMNOPQRSTUVWXY''"]
  by (simp add: take_min_length lettered_items_def lettered_item_def item_without_quantity_def)

section \<open>Properties of the orchestrator\<close>

lemma example_world_calls:
  "analyze_expense (example_world tx p s) bucket key = Inr tx"
  "put_item (example_world tx p s) r = p"
  "send_email (example_world tx p s) m = s"
  "uuid4 (example_world tx p s) = ''1b4e28ba-2fa1-11d2-883f-0016d3cca427''"
  by (simp_all add: example_world_def)

lemma manual_event_adapt: "adapt_trigger manual_event = Inr (JStr ''b'', JStr ''k'')"
  by (simp add: manual_event_def adapt_trigger_def s3_condition_def obj_get_def bindE_def)

lemma adapt_trigger_failure: "adapt_trigger event = Inl e \<Longrightarrow> handler w event = ([], Inl e)"
  by (simp add: handler_def)

text \<open>
  Claim C4, as stated, fails. The payload here has the storage-event shape with an empty
  bucket name and no top-level bucket or key, so neither shape yields a non-empty bucket
  together with a non-empty key; the handler raises nothing and calls the extraction
  service with the empty bucket. On a payload that is an empty list the test of line 64
  is false and there is no bucket or key, and the handler fails with Python's
  \<^verbatim>\<open>AttributeError\<close> at \<^verbatim>\<open>event.get\<close>, not with the \<^verbatim>\<open>ValueError\<close>.
\<close>

theorem storage_event_not_validated_counterexample:
  "py_get s3_event_empty_bucket ''bucket'' = Inr JNull \<and>
   py_get s3_event_empty_bucket ''key'' = Inr JNull \<and>
   adapt_trigger s3_event_empty_bucket = Inr (JStr '''', JStr ''k'') \<and>
   \<not> truthy_json (JStr '''') \<and>
   AnalyzeExpense (JStr '''') (JStr ''k'')
     \<in> set (fst (handler (example_world no_documents None None) s3_event_empty_bucket)) \<and>
   snd (handler (example_world no_documents None None) s3_event_empty_bucket)
     \<noteq> Inl (ValueError ''Provide {bucket, key} when invoking manually.'') \<and>
   s3_condition (JList []) = Inr False \<and>
   handler (example_world no_documents None None) (JList []) = ([], Inl AttributeError)"
proof -
  have a: "adapt_trigger s3_event_empty_bucket = Inr (JStr '''', JStr ''k'')"
    by (simp add: s3_event_empty_bucket_def adapt_trigger_def s3_condition_def obj_get_def
        bindE_def)
  have e: "py_get s3_event_empty_bucket ''bucket'' = Inr JNull"
      "py_get s3_event_empty_bucket ''key'' = Inr JNull"
    by (simp_all add: s3_event_empty_bucket_def obj_get_def)
  have l: "s3_condition (JList []) = Inr False"
    by (simp add: s3_condition_def bindE_def)
  have h: "handler (example_world no_documents None None) (JList []) = ([], Inl AttributeError)"
    by (rule adapt_trigger_failure) (simp add: adapt_trigger_def l bindE_def)
  have t: "AnalyzeExpense (JStr '''') (JStr ''k'')
       \<in> set (fst (handler (example_world no_documents None None) s3_event_empty_bucket))"
    and r: "snd (handler (example_world no_documents None None) s3_event_empty_bucket)
       \<noteq> Inl (ValueError ''Provide {bucket, key} when invoking manually.'')"
    by (simp_all add: a handler_def example_world_calls Let_def)
  show ?thesis
    by (simp add: a e l h t r)
qed

text \<open>
  Claim C4, amended. For every invocation payload on which the storage-event test of
  line 64 is false (no "Records" in it, a false "Records" value, or a first record
  whose "s3" value is missing or false) and whose top-level bucket or key is missing or
  false, the handler fails before any external call is made; when the payload is a JSON
  object, the failure is the \<^verbatim>\<open>ValueError\<close> of line 72. A payload that is not an
  object has no top-level bucket or key.
\<close>

theorem manual_invocation_validated:
  assumes "s3_condition event = Inr False"
    and "\<forall>kvs. event = JObj kvs \<longrightarrow>
           \<not> truthy_json (obj_get kvs ''bucket'') \<or> \<not> truthy_json (obj_get kvs ''key'')"
  shows "fst (handler w event) = [] \<and>
         (\<exists>e. snd (handler w event) = Inl e) \<and>
         (\<forall>kvs. event = JObj kvs \<longrightarrow>
            snd (handler w event) =
              Inl (ValueError ''Provide {bucket, key} when invoking manually.''))"
proof (cases event)
  case (JObj kvs)
  with assms have "adapt_trigger event =
      Inl (ValueError ''Provide {bucket, key} when invoking manually.'')"
    by (auto simp: adapt_trigger_def bindE_def)
  then have "handler w event =
      ([], Inl (ValueError ''Provide {bucket, key} when invoking manually.''))"
    by (rule adapt_trigger_failure)
  then show ?thesis by auto
next
  case JNull
  with assms(1) show ?thesis by (simp add: s3_condition_def bindE_def)
next
  case (JBool b)
  with assms(1) show ?thesis by (simp add: s3_condition_def bindE_def)
next
  case (JNum x)
  with assms(1) show ?thesis by (simp add: s3_condition_def bindE_def)
next
  case (JStr t)
  with assms(1) have "adapt_trigger event = Inl AttributeError"
    by (simp add: adapt_trigger_def bindE_def)
  then have "handler w event = ([], Inl AttributeError)"
    by (rule adapt_trigger_failure)
  with JStr show ?thesis by simp
next
  case (JList xs)
  with assms(1) have "adapt_trigger event = Inl AttributeError"
    by (simp add: adapt_trigger_def bindE_def)
  then have "handler w event = ([], Inl AttributeError)"
    by (rule adapt_trigger_failure)
  with JList show ?thesis by simp
qed

theorem manual_invocation_validated_witness:
  "s3_condition (JObj [(''bucket'', JStr ''b''), (''key'', JStr '''')]) = Inr False \<and>
   \<not> truthy_json (obj_get [(''bucket'', JStr ''b''), (''key'', JStr '''')] ''key'') \<and>
   handler (example_world no_documents None None)
       (JObj [(''bucket'', JStr ''b''), (''key'', JStr '''')]) =
     ([], Inl (ValueError ''Provide {bucket, key} when invoking manually.'')) \<and>
   s3_condition (JList [JStr ''bucket'', JStr ''key'']) = Inr False \<and>
   fst (handler (example_world no_documents None None) (JList [JStr ''bucket'', JStr ''key''])) = [] \<and>
   (\<exists>e. snd (handler (example_world no_documents None None)
                (JList [JStr ''bucket'', JStr ''key''])) = Inl e)"
  using manual_invocation_validated
    [of "JObj [(''bucket'', JStr ''b''), (''key'', JStr '''')]"
        "example_world no_documents None None"]
    manual_invocation_validated
    [of "JList [JStr ''bucket'', JStr ''key'']" "example_world no_documents None None"]
  by (simp add: s3_condition_def obj_get_def bindE_def prod_eq_iff)

text \<open>
  Claim C2. When the trigger is adapted, the extraction call returns and the write of
  the record raises \<open>e\<close>, the handler fails with \<open>e\<close> and returns no output; the
  external calls made are the extraction call and the write, in that order, so the
  notification is never sent and nothing follows the failed write.
\<close>

theorem persistence_failure_aborts:
  assumes "adapt_trigger event = Inr (bucket, key)"
    and "analyze_expense w bucket key = Inr tx"
    and "put_item w (receipt_of w bucket key tx) = Some e"
  shows "handler w event =
           ([AnalyzeExpense bucket key, PutItem (receipt_of w bucket key tx)], Inl e) \<and>
         (\<forall>m. SendEmail m \<notin> set (fst (handler w event)))"
  using assms by (simp add: handler_def)

theorem persistence_failure_aborts_witness:
  "adapt_trigger manual_event = Inr (JStr ''b'', JStr ''k'') \<and>
   put_item (example_world no_documents (Some (OtherException ''table not found'')) None)
     (receipt_of (example_world no_documents (Some (OtherException ''table not found'')) None)
        (JStr ''b'') (JStr ''k'') no_documents) = Some (OtherException ''table not found'') \<and>
   snd (handler (example_world no_documents (Some (OtherException ''table not found'')) None)
          manual_event) = Inl (OtherException ''table not found'') \<and>
   length (fst (handler (example_world no_documents (Some (OtherException ''table not found'')) None)
          manual_event)) = 2"
  using persistence_failure_aborts
    [of manual_event "JStr ''b''" "JStr ''k''"
        "example_world no_documents (Some (OtherException ''table not found'')) None"
        no_documents "OtherException ''table not found''"]
  by (simp add: manual_event_adapt example_world_calls)

text \<open>
  Claim C3, as stated, fails. The record is written, the send raises an exception that
  is not a \<^verbatim>\<open>ClientError\<close> (the endpoint cannot be reached), and the handler fails with
  that exception instead of returning the success output.
\<close>

theorem notification_other_exception_counterexample:
  "put_item world_ses_unreachable
     (receipt_of world_ses_unreachable (JStr ''b'') (JStr ''k'') no_documents) = None \<and>
   send_email world_ses_unreachable
     (build_email world_ses_unreachable
        (receipt_of world_ses_unreachable (JStr ''b'') (JStr ''k'') no_documents))
     = Some (OtherException ''EndpointConnectionError'') \<and>
   handler world_ses_unreachable manual_event =
     ([AnalyzeExpense (JStr ''b'') (JStr ''k''),
       PutItem (receipt_of world_ses_unreachable (JStr ''b'') (JStr ''k'') no_documents),
       SendEmail (build_email world_ses_unreachable
         (receipt_of world_ses_unreachable (JStr ''b'') (JStr ''k'') no_documents))],
      Inl (OtherException ''EndpointConnectionError''))"
proof -
  have a: "analyze_expense world_ses_unreachable (JStr ''b'') (JStr ''k'') = Inr no_documents"
    by (simp add: world_ses_unreachable_def example_world_def)
  have p: "put_item world_ses_unreachable r = None" for r
    by (simp add: world_ses_unreachable_def example_world_def)
  have s: "send_email world_ses_unreachable m = Some (OtherException ''EndpointConnectionError'')" for m
    by (simp add: world_ses_unreachable_def example_world_def)
  show ?thesis
    by (simp add: handler_def manual_event_adapt a p s Let_def)
qed

text \<open>
  Claim C3, amended. If the notification send raises a \<^verbatim>\<open>ClientError\<close> after the record
  was persisted, the failure is suppressed and the handler returns the success output
  with the status "ok", the identifier of the record that was written, its summary and
  the number of its line items.
\<close>

theorem notification_client_error_suppressed:
  assumes "adapt_trigger event = Inr (bucket, key)"
    and "analyze_expense w bucket key = Inr tx"
    and "put_item w (receipt_of w bucket key tx) = None"
    and "send_email w (build_email w (receipt_of w bucket key tx)) = Some (ClientError msg)"
  shows "snd (handler w event) =
           Inr \<lparr> status = ''ok'',
                 out_receipt_id = receipt_id (receipt_of w bucket key tx),
                 out_summary = summary (receipt_of w bucket key tx),
                 line_items_count = length (line_items (receipt_of w bucket key tx)) \<rparr> \<and>
         fst (handler w event) =
           [AnalyzeExpense bucket key, PutItem (receipt_of w bucket key tx),
            SendEmail (build_email w (receipt_of w bucket key tx))]"
  using assms by (simp add: handler_def ok_output_def Let_def)

theorem notification_client_error_suppressed_witness:
  "adapt_trigger manual_event = Inr (JStr ''b'', JStr ''k'') \<and>
   snd (handler (example_world no_documents None (Some (ClientError ''MessageRejected''))) manual_event) =
     Inr \<lparr> status = ''ok'', out_receipt_id = ''1b4e28ba-2fa1-11d2-883f-0016d3cca427'',
           out_summary = [], line_items_count = 0 \<rparr>"
  using notification_client_error_suppressed
    [of manual_event "JStr ''b''" "JStr ''k''"
        "example_world no_documents None (Some (ClientError ''MessageRejected''))"
        no_documents "''MessageRejected''"]
  by (simp add: manual_event_adapt example_world_calls)
     (simp add: receipt_of_def no_documents_def normalize_def build_record_def example_world_calls)

text \<open>
  Claim C10. When the record was persisted and the notification send raises \<open>e\<close>: if
  \<open>e\<close> is a \<^verbatim>\<open>ClientError\<close> it is suppressed and the handler returns the success output;
  any other exception leaves the handler, which fails with it although the write of the
  record is among the calls already made.
\<close>

theorem only_client_error_suppressed:
  assumes "adapt_trigger event = Inr (bucket, key)"
    and "analyze_expense w bucket key = Inr tx"
    and "put_item w (receipt_of w bucket key tx) = None"
    and "send_email w (build_email w (receipt_of w bucket key tx)) = Some e"
  shows "((\<exists>msg. e = ClientError msg) \<longrightarrow>
            snd (handler w event) = Inr (ok_output (receipt_of w bucket key tx))) \<and>
         ((\<forall>msg. e \<noteq> ClientError msg) \<longrightarrow> snd (handler w event) = Inl e) \<and>
         PutItem (receipt_of w bucket key tx) \<in> set (fst (handler w event))"
  using assms by (cases e) (simp_all add: handler_def Let_def)

theorem only_client_error_suppressed_witness:
  "adapt_trigger manual_event = Inr (JStr ''b'', JStr ''k'') \<and>
   snd (handler (example_world no_documents None (Some (OtherException ''ParamValidationError''))) manual_event)
     = Inl (OtherException ''ParamValidationError'') \<and>
   snd (handler (example_world no_documents None (Some (ClientError ''Throttling''))) manual_event)
     = Inr (ok_output (receipt_of (example_world no_documents None (Some (ClientError ''Throttling'')))
              (JStr ''b'') (JStr ''k'') no_documents))"
  using only_client_error_suppressed
    [of manual_event "JStr ''b''" "JStr ''k''"
        "example_world no_documents None (Some (OtherException ''ParamValidationError''))"
        no_documents "OtherException ''ParamValidationError''"]
    only_client_error_suppressed
    [of manual_event "JStr ''b''" "JStr ''k''"
        "example_world no_documents None (Some (ClientError ''Throttling''))"
        no_documents "ClientError ''Throttling''"]
  by (simp add: manual_event_adapt example_world_calls)

text \<open>
  Claim C9. When the extraction result has no document (the list is empty or the member
  is missing), normalization gives the empty summary and the empty list of line items;
  the handler goes on to write a record with these, and whenever that write succeeds and
  the send either succeeds or raises a \<^verbatim>\<open>ClientError\<close>, it returns the success output
  with the empty summary and the count 0.
\<close>

theorem no_documents_still_processed:
  assumes "adapt_trigger event = Inr (bucket, key)"
    and "analyze_expense w bucket key = Inr tx"
    and "ExpenseDocuments tx = None \<or> ExpenseDocuments tx = Some []"
  shows "normalize (case ExpenseDocuments tx of None \<Rightarrow> [] | Some ds \<Rightarrow> ds) = ([], []) \<and>
         summary (receipt_of w bucket key tx) = [] \<and>
         line_items (receipt_of w bucket key tx) = [] \<and>
         PutItem (receipt_of w bucket key tx) \<in> set (fst (handler w event)) \<and>
         (put_item w (receipt_of w bucket key tx) = None \<and>
          (\<forall>e. send_email w (build_email w (receipt_of w bucket key tx)) = Some e
                 \<longrightarrow> (\<exists>msg. e = ClientError msg))
          \<longrightarrow> snd (handler w event) =
                Inr \<lparr> status = ''ok'', out_receipt_id = uuid4 w, out_summary = [],
                      line_items_count = 0 \<rparr>)"
proof -
  from assms(3) have docs: "(case ExpenseDocuments tx of None \<Rightarrow> [] | Some ds \<Rightarrow> ds) = []"
    by auto
  have n: "normalize [] = ([], [])"
    by (simp add: normalize_def)
  have r: "receipt_of w bucket key tx = build_record w bucket key [] [] []"
    by (simp add: receipt_of_def docs n)
  have s: "summary (receipt_of w bucket key tx) = []"
    and l: "line_items (receipt_of w bucket key tx) = []"
    and i: "receipt_id (receipt_of w bucket key tx) = uuid4 w"
    by (simp_all add: r build_record_def)
  have p: "PutItem (receipt_of w bucket key tx) \<in> set (fst (handler w event))"
    using assms(1,2)
    by (auto simp: handler_def Let_def split: option.splits exn.splits)
  have ok: "snd (handler w event) =
                Inr \<lparr> status = ''ok'', out_receipt_id = uuid4 w, out_summary = [],
                      line_items_count = 0 \<rparr>"
    if "put_item w (receipt_of w bucket key tx) = None"
      and "\<forall>e. send_email w (build_email w (receipt_of w bucket key tx)) = Some e
                 \<longrightarrow> (\<exists>msg. e = ClientError msg)"
    using that assms(1,2)
    by (auto simp: handler_def Let_def ok_output_def s l i split: option.splits exn.splits)
  show ?thesis
    using docs n s l p ok by simp
qed

theorem no_documents_still_processed_witness:
  "adapt_trigger manual_event = Inr (JStr ''b'', JStr ''k'') \<and>
   ExpenseDocuments no_documents = Some [] \<and>
   put_item (example_world no_documents None None)
     (receipt_of (example_world no_documents None None) (JStr ''b'') (JStr ''k'') no_documents) = None \<and>
   snd (handler (example_world no_documents None None) manual_event) =
     Inr \<lparr> status = ''ok'', out_receipt_id = ''1b4e28ba-2fa1-11d2-883f-0016d3cca427'',
           out_summary = [], line_items_count = 0 \<rparr>"
  using no_documents_still_processed
    [of manual_event "JStr ''b''" "JStr ''k''" "example_world no_documents None None" no_documents]
  by (simp add: manual_event_adapt example_world_calls no_documents_def)

end
